theory Spec2Isabelle
  imports Main "HOL-Library.Sublist"
begin

section \<open>The pdf2sents pipeline (pdf2sents/pipeline.py)\<close>

text \<open>
  The module chains seven collaborators (a parser, a rasterizer and five predictors)
  that live in other libraries. The collaborators, the file cache, the class factory of
  the configuration library and the regular expression engine are parameters of the
  model; the code of \<^verbatim>\<open>PipelineConfig\<close>, \<^verbatim>\<open>Pipeline.__init__\<close>,
  \<^verbatim>\<open>Pipeline.__call__\<close> and \<^verbatim>\<open>Pipeline.run\<close> is embedded statement by statement.
  Exceptions are values (\<open>Inl\<close>), and the interpreter state that \<^verbatim>\<open>run\<close> touches
  (the list of warning filters and the gradient mode) is passed explicitly.
\<close>

subsection \<open>Python warnings\<close>

text \<open>The built-in warning categories; each is a direct subclass of \<^verbatim>\<open>Warning\<close>.\<close>

datatype category =
    Warning | UserWarning | DeprecationWarning | PendingDeprecationWarning
  | SyntaxWarning | RuntimeWarning | FutureWarning | ImportWarning
  | UnicodeWarning | BytesWarning | ResourceWarning

fun issubclass :: "category \<Rightarrow> category \<Rightarrow> bool" where
  "issubclass c Warning = True"
| "issubclass c c' = (c = c')"

datatype action = ActDefault | ActError | ActIgnore | ActAlways | ActModule | ActOnce

record warning =
  category :: category
  message :: string
  modname :: string
  lineno :: nat

text \<open>
  An entry of \<^verbatim>\<open>warnings.filters\<close> is the tuple
  \<^verbatim>\<open>(action, message, category, module, lineno)\<close>; \<^verbatim>\<open>message\<close> and \<^verbatim>\<open>module\<close>
  are regular expressions or \<^verbatim>\<open>None\<close>, and line 0 stands for every line.
\<close>

type_synonym wfilter = "action \<times> string option \<times> category \<times> string option \<times> nat"

datatype exn = Exception string | WarningRaised warning

type_synonym path = string
type_synonym image = string
type_synonym annotation = string

subsection \<open>Document\<close>

datatype payload = Images "image list" | Annotations "annotation list"

text \<open>
  Modelled from the spec: the \<^verbatim>\<open>Document\<close> class of the mmda library is not among the
  sources. The spec describes it as a container for a parsed file's content and
  incrementally attached annotation layers, where layers are added and never removed.
  A document is its content and its named layers in the order in which they were
  attached; attaching appends one named layer.
\<close>

record document =
  content :: string
  layers :: "(string \<times> payload) list"

text \<open>
  Modelled from the spec: \<^verbatim>\<open>Document.annotate_images\<close> and \<^verbatim>\<open>Document.annotate\<close> are
  methods of the same absent class. Following the spec (a stage attaches its result as a
  named annotation layer; layers are added, never removed), each appends one layer under
  its name and leaves the rest of the document alone.
\<close>

definition annotate_images :: "image list \<Rightarrow> document \<Rightarrow> document" where
  "annotate_images images doc = doc\<lparr>layers := layers doc @ [(''images'', Images images)]\<rparr>"

definition annotate :: "string \<Rightarrow> annotation list \<Rightarrow> document \<Rightarrow> document" where
  "annotate name anns doc = doc\<lparr>layers := layers doc @ [(name, Annotations anns)]\<rparr>"

subsection \<open>Collaborators\<close>

text \<open>
  A collaborator is used through its call contract only: called on an argument, it emits
  a sequence of warnings and then returns a value or raises. A component built by the
  factory is an object with the three methods the pipeline calls; a method the object
  does not have is one that raises.
\<close>

type_synonym ('a, 'b) collab = "'a \<Rightarrow> warning list \<times> (exn + 'b)"

record component =
  parse :: "(path, document) collab"
  rasterize :: "path \<Rightarrow> (nat, image list) collab"
  predict :: "(document, annotation list) collab"

record step_config =
  target :: string
  params :: "(string \<times> string) list"

text \<open>
  What the module imports from outside: \<^verbatim>\<open>cached_path\<close>, \<^verbatim>\<open>str(Path(.))\<close>,
  \<^verbatim>\<open>sp.Target.to_string\<close>, \<^verbatim>\<open>sp.init.now\<close> (given the step configuration and the class
  passed as second argument) and the matching of a filter's regular expression
  (\<^verbatim>\<open>re_match pattern string\<close>).
\<close>

record env =
  cached_path :: "(path, path) collab"
  path_str :: "path \<Rightarrow> path"
  to_string :: "string \<Rightarrow> string"
  init_now :: "step_config \<Rightarrow> string \<Rightarrow> exn + component"
  re_match :: "string \<Rightarrow> string \<Rightarrow> bool"

subsection \<open>Interpreter state\<close>

text \<open>
  \<open>filters\<close> is \<^verbatim>\<open>warnings.filters\<close>, \<open>grad_enabled\<close> is torch's gradient mode, and
  \<open>warn_log\<close> records, for every warning emitted so far, the action that the filter
  list in force gave it. The once-per-location registries of the warnings module are not
  modelled.
\<close>

record world =
  filters :: "wfilter list"
  grad_enabled :: bool
  warn_log :: "(warning \<times> action) list"

type_synonym 'a io = "world \<Rightarrow> (exn + 'a) \<times> world"

definition return_io :: "'a \<Rightarrow> 'a io" where
  "return_io x w = (Inr x, w)"

definition bind_io :: "'a io \<Rightarrow> ('a \<Rightarrow> 'b io) \<Rightarrow> 'b io" where
  "bind_io m f w = (case m w of (Inl e, w') \<Rightarrow> (Inl e, w') | (Inr x, w') \<Rightarrow> f x w')"

text \<open>
  \<^verbatim>\<open>warnings.warn_explicit\<close>: the first filter that matches decides; without a match
  the action is \<^verbatim>\<open>defaultaction = "default"\<close>.
\<close>

definition pattern_ok :: "env \<Rightarrow> string option \<Rightarrow> string \<Rightarrow> bool" where
  "pattern_ok ev pat s = (case pat of None \<Rightarrow> True | Some r \<Rightarrow> re_match ev r s)"

fun resolve :: "env \<Rightarrow> wfilter list \<Rightarrow> warning \<Rightarrow> action" where
  "resolve ev [] wn = ActDefault"
| "resolve ev ((act, msg, cat, md, ln) # fs) wn =
     (if pattern_ok ev msg (message wn) \<and> issubclass (category wn) cat \<and>
         pattern_ok ev md (modname wn) \<and> (ln = 0 \<or> lineno wn = ln)
      then act else resolve ev fs wn)"

definition warn :: "env \<Rightarrow> warning \<Rightarrow> unit io" where
  "warn ev wn w =
     (let act = resolve ev (filters w) wn;
          w' = w\<lparr>warn_log := warn_log w @ [(wn, act)]\<rparr>
      in if act = ActError then (Inl (WarningRaised wn), w') else (Inr (), w'))"

fun emit :: "env \<Rightarrow> warning list \<Rightarrow> unit io" where
  "emit ev [] w = (Inr (), w)"
| "emit ev (wn # wns) w = bind_io (warn ev wn) (\<lambda>_. emit ev wns) w"

text \<open>
  Calling a collaborator: its warnings go through \<open>warn\<close> in order; one that the filters
  turn into an error is raised at that point, in place of the collaborator's own outcome.
\<close>

definition call :: "env \<Rightarrow> ('a, 'b) collab \<Rightarrow> 'a \<Rightarrow> 'b io" where
  "call ev f x = bind_io (emit ev (fst (f x))) (\<lambda>_ w. (snd (f x), w))"

text \<open>
  \<^verbatim>\<open>warnings.simplefilter(action)\<close> is
  \<^verbatim>\<open>_add_filter(action, None, Warning, None, 0, append=False)\<close>: an equal entry is removed
  and the new one is put in front.
\<close>

definition simplefilter :: "action \<Rightarrow> world \<Rightarrow> world" where
  "simplefilter act w =
     (let item = (act, None, Warning, None, 0)
      in w\<lparr>filters := item # remove1 item (filters w)\<rparr>)"

subsection \<open>Pipeline\<close>

record pipeline =
  parser :: component
  rasterizer :: component
  layout_pred :: component
  words_pred :: component
  sents_pred :: component
  blocks_type_pred :: component
  sents_type_pred :: component

text \<open>
  Lines 93 to 101, the \<^verbatim>\<open>with torch.no_grad(), warnings.catch_warnings():\<close> block.
  \<^verbatim>\<open>no_grad\<close> is entered first and left last; each context manager restores what it
  saved on normal and on exceptional exit, and neither swallows the exception.
\<close>

definition layout_block :: "env \<Rightarrow> pipeline \<Rightarrow> document \<Rightarrow> document io" where
  "layout_block ev p doc w =
     (let prev = grad_enabled w;
          w1 = w\<lparr>grad_enabled := False\<rparr>;
          saved = filters w1;
          w2 = simplefilter ActIgnore w1;
          (r, w3) = bind_io (call ev (predict (layout_pred p)) doc)
                      (\<lambda>layout_regions. return_io (annotate ''blocks'' layout_regions doc)) w2;
          w4 = w3\<lparr>filters := saved\<rparr>;
          w5 = w4\<lparr>grad_enabled := prev\<rparr>
      in (r, w5))"

text \<open>
  \<^verbatim>\<open>Pipeline.run\<close>, lines 86 to 115. \<^verbatim>\<open>src_path\<close> is used through \<^verbatim>\<open>str(src_path)\<close>
  only, which \<open>path_str\<close> computes from what \<^verbatim>\<open>cached_path\<close> returned.
\<close>

definition run :: "env \<Rightarrow> pipeline \<Rightarrow> path \<Rightarrow> document io" where
  "run ev p input_path =
     bind_io (call ev (cached_path ev) input_path) (\<lambda>cp.
     let src_path = path_str ev cp in
     bind_io (call ev (parse (parser p)) src_path) (\<lambda>doc.
     bind_io (call ev (rasterize (rasterizer p) src_path) 72) (\<lambda>images.
     let doc = annotate_images images doc in
     bind_io (layout_block ev p doc) (\<lambda>doc.
     bind_io (call ev (predict (words_pred p)) doc) (\<lambda>words.
     let doc = annotate ''words'' words doc in
     bind_io (call ev (predict (sents_pred p)) doc) (\<lambda>sents.
     let doc = annotate ''sents'' sents doc in
     bind_io (call ev (predict (blocks_type_pred p)) doc) (\<lambda>typed_blocks.
     let doc = annotate ''typed_blocks'' typed_blocks doc in
     bind_io (call ev (predict (sents_type_pred p)) doc) (\<lambda>typed_sents.
     let doc = annotate ''typed_sents'' typed_sents doc in
     return_io doc))))))))"

text \<open>\<^verbatim>\<open>Pipeline.__call__\<close>, lines 83 and 84.\<close>

definition Pipeline_call :: "env \<Rightarrow> pipeline \<Rightarrow> path \<Rightarrow> document io" where
  "Pipeline_call ev p input_path = run ev p input_path"

subsection \<open>A view of run by stages\<close>

text \<open>
  The statements of \<^verbatim>\<open>run\<close> after parsing, one per attached layer, in the order of the
  source. The local variables that live across them are \<^verbatim>\<open>src_path\<close> and \<^verbatim>\<open>doc\<close>.
  \<open>run_upto n\<close> runs lines 87 to 89 and then the first \<open>n\<close> stages, so that the
  document at every point between two stages can be spoken about; lemma \<open>run_staged\<close>
  below shows that \<open>run\<close> is \<open>run_upto 6\<close>.
\<close>

datatype stage = St_images | St_blocks | St_words | St_sents | St_typed_blocks | St_typed_sents

type_synonym locals = "path \<times> document"

fun run_stage :: "env \<Rightarrow> pipeline \<Rightarrow> stage \<Rightarrow> locals \<Rightarrow> locals io" where
  "run_stage ev p St_images (src_path, doc) =
     bind_io (call ev (rasterize (rasterizer p) src_path) 72)
       (\<lambda>images. return_io (src_path, annotate_images images doc))"
| "run_stage ev p St_blocks (src_path, doc) =
     bind_io (layout_block ev p doc) (\<lambda>doc'. return_io (src_path, doc'))"
| "run_stage ev p St_words (src_path, doc) =
     bind_io (call ev (predict (words_pred p)) doc)
       (\<lambda>words. return_io (src_path, annotate ''words'' words doc))"
| "run_stage ev p St_sents (src_path, doc) =
     bind_io (call ev (predict (sents_pred p)) doc)
       (\<lambda>sents. return_io (src_path, annotate ''sents'' sents doc))"
| "run_stage ev p St_typed_blocks (src_path, doc) =
     bind_io (call ev (predict (blocks_type_pred p)) doc)
       (\<lambda>typed_blocks. return_io (src_path, annotate ''typed_blocks'' typed_blocks doc))"
| "run_stage ev p St_typed_sents (src_path, doc) =
     bind_io (call ev (predict (sents_type_pred p)) doc)
       (\<lambda>typed_sents. return_io (src_path, annotate ''typed_sents'' typed_sents doc))"

fun run_stages :: "env \<Rightarrow> pipeline \<Rightarrow> stage list \<Rightarrow> locals \<Rightarrow> locals io" where
  "run_stages ev p [] s = return_io s"
| "run_stages ev p (st # sts) s = bind_io (run_stage ev p st s) (run_stages ev p sts)"

definition all_stages :: "stage list" where
  "all_stages = [St_images, St_blocks, St_words, St_sents, St_typed_blocks, St_typed_sents]"

definition run_parse :: "env \<Rightarrow> pipeline \<Rightarrow> path \<Rightarrow> locals io" where
  "run_parse ev p input_path =
     bind_io (call ev (cached_path ev) input_path) (\<lambda>cp.
     let src_path = path_str ev cp in
     bind_io (call ev (parse (parser p)) src_path) (\<lambda>doc. return_io (src_path, doc)))"

definition run_upto :: "env \<Rightarrow> pipeline \<Rightarrow> nat \<Rightarrow> path \<Rightarrow> locals io" where
  "run_upto ev p n input_path =
     bind_io (run_parse ev p input_path) (run_stages ev p (take n all_stages))"

text \<open>
  The outcome of a collaborator call under a filter list: the first of its warnings that
  the filters turn into an error is raised, otherwise its own outcome stands.
\<close>

fun raised :: "env \<Rightarrow> wfilter list \<Rightarrow> warning list \<Rightarrow> warning option" where
  "raised ev fs [] = None"
| "raised ev fs (wn # wns) = (if resolve ev fs wn = ActError then Some wn else raised ev fs wns)"

definition outcome :: "env \<Rightarrow> wfilter list \<Rightarrow> ('a, 'b) collab \<Rightarrow> 'a \<Rightarrow> exn + 'b" where
  "outcome ev fs f x =
     (case raised ev fs (fst (f x)) of Some wn \<Rightarrow> Inl (WarningRaised wn) | None \<Rightarrow> snd (f x))"

text \<open>
  The entries that a collaborator's warnings add to the log under a filter list: one per
  warning, up to and including the first that is raised as an error.
\<close>

fun dispositions :: "env \<Rightarrow> wfilter list \<Rightarrow> warning list \<Rightarrow> (warning \<times> action) list" where
  "dispositions ev fs [] = []"
| "dispositions ev fs (wn # wns) =
     (wn, resolve ev fs wn) # (if resolve ev fs wn = ActError then [] else dispositions ev fs wns)"

text \<open>The name under which each stage attaches its layer.\<close>

fun layer_name :: "stage \<Rightarrow> string" where
  "layer_name St_images = ''images''"
| "layer_name St_blocks = ''blocks''"
| "layer_name St_words = ''words''"
| "layer_name St_sents = ''sents''"
| "layer_name St_typed_blocks = ''typed_blocks''"
| "layer_name St_typed_sents = ''typed_sents''"

text \<open>The warnings that the collaborator of a stage emits when the stage runs.\<close>

fun stage_warnings :: "pipeline \<Rightarrow> stage \<Rightarrow> locals \<Rightarrow> warning list" where
  "stage_warnings p St_images (src_path, doc) = fst (rasterize (rasterizer p) src_path 72)"
| "stage_warnings p St_blocks (src_path, doc) = fst (predict (layout_pred p) doc)"
| "stage_warnings p St_words (src_path, doc) = fst (predict (words_pred p) doc)"
| "stage_warnings p St_sents (src_path, doc) = fst (predict (sents_pred p) doc)"
| "stage_warnings p St_typed_blocks (src_path, doc) = fst (predict (blocks_type_pred p) doc)"
| "stage_warnings p St_typed_sents (src_path, doc) = fst (predict (sents_type_pred p) doc)"



subsection \<open>Configuration and construction\<close>

text \<open>The callables the module imports, named by their import path.\<close>

definition PDFPlumberParser :: string where
  "PDFPlumberParser = ''mmda.parsers.pdfplumber_parser.PDFPlumberParser''"

definition PDF2ImageRasterizer :: string where
  "PDF2ImageRasterizer = ''mmda.rasterizers.rasterizer.PDF2ImageRasterizer''"

definition LayoutParserPredictor :: string where
  "LayoutParserPredictor = ''mmda.predictors.lp_predictors.LayoutParserPredictor''"

definition LayoutParserPredictor_from_pretrained :: string where
  "LayoutParserPredictor_from_pretrained =
     ''mmda.predictors.lp_predictors.LayoutParserPredictor.from_pretrained''"

definition PysbdSentenceBoundaryPredictor :: string where
  "PysbdSentenceBoundaryPredictor =
     ''mmda.predictors.heuristic_predictors.sentence_boundary_predictor.PysbdSentenceBoundaryPredictor''"

definition ExtendedDictionaryWordPredictor :: string where
  "ExtendedDictionaryWordPredictor = ''pdf2sents.word_predictors.ExtendedDictionaryWordPredictor''"

definition TypedBlockPredictor :: string where
  "TypedBlockPredictor = ''pdf2sents.typed_predictors.TypedBlockPredictor''"

definition TypedSentencesPredictor :: string where
  "TypedSentencesPredictor = ''pdf2sents.typed_predictors.TypedSentencesPredictor''"

definition MISSING :: string where
  "MISSING = ''???''"

definition words_url :: string where
  "words_url = ''https://github.com/dwyl/english-words/raw/master/words.txt''"

text \<open>
  \<^verbatim>\<open>PipelineStepConfig(_target_=..., **extra)\<close>: the target defaults to \<^verbatim>\<open>sp.MISSING\<close>, and
  the class is flexible, so further keyword arguments become parameters.
\<close>

definition PipelineStepConfig :: "string option \<Rightarrow> (string \<times> string) list \<Rightarrow> step_config" where
  "PipelineStepConfig tgt extra =
     \<lparr>target = (case tgt of None \<Rightarrow> MISSING | Some t \<Rightarrow> t), params = extra\<rparr>"

record pipeline_config =
  parser_cfg :: step_config
  rasterizer_cfg :: step_config
  layout_cfg :: step_config
  sents_cfg :: step_config
  words_cfg :: step_config
  blocks_type_cfg :: step_config
  sents_type_cfg :: step_config

text \<open>
  The body of class \<^verbatim>\<open>PipelineConfig\<close> (lines 30 to 56) computes the default of every
  field when the module is loaded; the default dictionary path is what \<^verbatim>\<open>cached_path\<close>
  returns for the word list's URL at that moment, and a failure there is a failure to
  load the module.
\<close>

definition PipelineConfig_defaults :: "env \<Rightarrow> exn + pipeline_config" where
  "PipelineConfig_defaults ev =
     (case snd (cached_path ev words_url) of
        Inl e \<Rightarrow> Inl e
      | Inr local_path \<Rightarrow> Inr
         \<lparr>parser_cfg = PipelineStepConfig (Some (to_string ev PDFPlumberParser)) [],
          rasterizer_cfg = PipelineStepConfig (Some (to_string ev PDF2ImageRasterizer)) [],
          layout_cfg = PipelineStepConfig (Some (to_string ev LayoutParserPredictor_from_pretrained))
             [(''config_path'', ''lp://efficientdet/PubLayNet'')],
          sents_cfg = PipelineStepConfig (Some (to_string ev PysbdSentenceBoundaryPredictor)) [],
          words_cfg = PipelineStepConfig (Some (to_string ev ExtendedDictionaryWordPredictor))
             [(''dictionary_file_path'', local_path)],
          blocks_type_cfg = PipelineStepConfig (Some (to_string ev TypedBlockPredictor)) [],
          sents_type_cfg = PipelineStepConfig (Some (to_string ev TypedSentencesPredictor)) []\<rparr>)"

text \<open>
  The constructor that \<^verbatim>\<open>@dataclass\<close> generates: every field is an optional keyword
  argument, in the order of the fields, and a field that is not given takes its default.
\<close>

definition field_or :: "'a \<Rightarrow> 'a option \<Rightarrow> 'a" where
  "field_or dflt arg = (case arg of None \<Rightarrow> dflt | Some v \<Rightarrow> v)"

definition PipelineConfig ::
  "pipeline_config \<Rightarrow> step_config option \<Rightarrow> step_config option \<Rightarrow> step_config option \<Rightarrow>
   step_config option \<Rightarrow> step_config option \<Rightarrow> step_config option \<Rightarrow> step_config option \<Rightarrow>
   pipeline_config" where
  "PipelineConfig dflt a_parser a_rasterizer a_layout a_sents a_words a_blocks_type a_sents_type =
     \<lparr>parser_cfg = field_or (parser_cfg dflt) a_parser,
      rasterizer_cfg = field_or (rasterizer_cfg dflt) a_rasterizer,
      layout_cfg = field_or (layout_cfg dflt) a_layout,
      sents_cfg = field_or (sents_cfg dflt) a_sents,
      words_cfg = field_or (words_cfg dflt) a_words,
      blocks_type_cfg = field_or (blocks_type_cfg dflt) a_blocks_type,
      sents_type_cfg = field_or (sents_type_cfg dflt) a_sents_type\<rparr>"

definition bind_exn :: "exn + 'a \<Rightarrow> ('a \<Rightarrow> exn + 'b) \<Rightarrow> exn + 'b" where
  "bind_exn r f = (case r of Inl e \<Rightarrow> Inl e | Inr x \<Rightarrow> f x)"

text \<open>\<^verbatim>\<open>Pipeline.__init__\<close>, lines 60 to 81: seven calls of \<^verbatim>\<open>sp.init.now\<close>, in this order.\<close>

definition Pipeline_init :: "env \<Rightarrow> pipeline_config \<Rightarrow> exn + pipeline" where
  "Pipeline_init ev config =
     bind_exn (init_now ev (parser_cfg config) PDFPlumberParser) (\<lambda>c1.
     bind_exn (init_now ev (rasterizer_cfg config) PDF2ImageRasterizer) (\<lambda>c2.
     bind_exn (init_now ev (layout_cfg config) LayoutParserPredictor) (\<lambda>c3.
     bind_exn (init_now ev (words_cfg config) ExtendedDictionaryWordPredictor) (\<lambda>c4.
     bind_exn (init_now ev (sents_cfg config) PysbdSentenceBoundaryPredictor) (\<lambda>c5.
     bind_exn (init_now ev (blocks_type_cfg config) TypedBlockPredictor) (\<lambda>c6.
     bind_exn (init_now ev (sents_type_cfg config) TypedSentencesPredictor) (\<lambda>c7.
     Inr \<lparr>parser = c1, rasterizer = c2, layout_pred = c3, words_pred = c4,
          sents_pred = c5, blocks_type_pred = c6, sents_type_pred = c7\<rparr>)))))))"

subsection \<open>A concrete pipeline\<close>

text \<open>
  A small environment and pipeline on which the theorems below are exercised: the cache
  returns the path it is given, the factory builds a component that labels its output
  with the target it was built from and refuses a missing target, and a filter pattern
  matches the strings it is a prefix of.
\<close>

definition demo_component :: "string \<Rightarrow> component" where
  "demo_component name =
     \<lparr>parse = (\<lambda>s. ([], Inr \<lparr>content = s, layers = [(''tokens'', Annotations [name])]\<rparr>)),
      rasterize = (\<lambda>s dpi. ([], Inr [s @ ''#1''])),
      predict = (\<lambda>d. ([], Inr [name]))\<rparr>"

definition demo_env :: env where
  "demo_env =
     \<lparr>cached_path = (\<lambda>s. ([], Inr s)),
      path_str = (\<lambda>s. s),
      to_string = (\<lambda>s. s),
      init_now = (\<lambda>c cls. if target c = MISSING then Inl (Exception ''MissingMandatoryValue'')
                           else Inr (demo_component (target c))),
      re_match = (\<lambda>pat s. prefix pat s)\<rparr>"

definition demo_pipeline :: pipeline where
  "demo_pipeline =
     \<lparr>parser = demo_component ''P'', rasterizer = demo_component ''R'',
      layout_pred = demo_component ''L'', words_pred = demo_component ''W'',
      sents_pred = demo_component ''S'', blocks_type_pred = demo_component ''TB'',
      sents_type_pred = demo_component ''TS''\<rparr>"

definition demo_world :: world where
  "demo_world = \<lparr>filters = [(ActAlways, None, UserWarning, None, 0)],
                 grad_enabled = True, warn_log = []\<rparr>"

definition other_warning :: warning where
  "other_warning = \<lparr>category = RuntimeWarning, message = ''invalid value encountered in divide'',
                    modname = ''numpy'', lineno = 7\<rparr>"

definition words_warning :: warning where
  "words_warning = \<lparr>category = UserWarning, message = ''dictionary has duplicate entries'',
                    modname = ''pdf2sents.word_predictors'', lineno = 12\<rparr>"

text \<open>
  The same pipeline with a layout predictor and a word predictor that each emit one
  warning, and one whose word predictor raises.
\<close>

definition noisy_pipeline :: pipeline where
  "noisy_pipeline = demo_pipeline
     \<lparr>layout_pred := (demo_component ''L'')\<lparr>predict := (\<lambda>d. ([other_warning], Inr [''L'']))\<rparr>,
      words_pred := (demo_component ''W'')\<lparr>predict := (\<lambda>d. ([words_warning], Inr [''W'']))\<rparr>\<rparr>"

definition failing_pipeline :: pipeline where
  "failing_pipeline = demo_pipeline
     \<lparr>words_pred := (demo_component ''W'')\<lparr>predict := (\<lambda>d. ([], Inl (Exception ''no dictionary'')))\<rparr>\<rparr>"

text \<open>
  A configuration from which the factory of \<open>demo_env\<close> builds \<open>demo_pipeline\<close>, and
  the document that the pipeline has built for \<^verbatim>\<open>paper.pdf\<close> after its first \<open>n\<close>
  stages.
\<close>

definition demo_config :: pipeline_config where
  "demo_config =
     \<lparr>parser_cfg = \<lparr>target = ''P'', params = []\<rparr>,
      rasterizer_cfg = \<lparr>target = ''R'', params = []\<rparr>,
      layout_cfg = \<lparr>target = ''L'', params = []\<rparr>,
      sents_cfg = \<lparr>target = ''S'', params = []\<rparr>,
      words_cfg = \<lparr>target = ''W'', params = []\<rparr>,
      blocks_type_cfg = \<lparr>target = ''TB'', params = []\<rparr>,
      sents_type_cfg = \<lparr>target = ''TS'', params = []\<rparr>\<rparr>"

definition demo_layers :: "(string \<times> payload) list" where
  "demo_layers =
     [(''tokens'', Annotations [''P'']), (''images'', Images [''paper.pdf#1'']),
      (''blocks'', Annotations [''L'']), (''words'', Annotations [''W'']),
      (''sents'', Annotations [''S'']), (''typed_blocks'', Annotations [''TB'']),
      (''typed_sents'', Annotations [''TS''])]"

definition demo_doc :: "nat \<Rightarrow> document" where
  "demo_doc n = \<lparr>content = ''paper.pdf'', layers = take (Suc n) demo_layers\<rparr>"

section \<open>Properties\<close>

subsection \<open>Basic facts\<close>

lemma bind_io_Inl: "m w = (Inl e, w') \<Longrightarrow> bind_io m f w = (Inl e, w')"
  by (simp add: bind_io_def)

lemma bind_io_Inr: "m w = (Inr x, w') \<Longrightarrow> bind_io m f w = f x w'"
  by (simp add: bind_io_def)

lemma bind_io_assoc: "bind_io (bind_io m f) g = bind_io m (\<lambda>x. bind_io (f x) g)"
  by (rule ext) (simp add: bind_io_def split: prod.splits sum.splits)

lemma bind_io_return_left: "bind_io (return_io x) f = f x"
  by (rule ext) (simp add: bind_io_def return_io_def)

lemma bind_io_return_right: "bind_io m return_io = m"
  by (rule ext) (simp add: bind_io_def return_io_def split: prod.splits sum.splits)

lemma resolve_ignore_all: "resolve ev ((ActIgnore, None, Warning, None, 0) # fs) wn = ActIgnore"
  by (simp add: pattern_ok_def)

lemma emit_eq:
  "emit ev wns w =
     ((case raised ev (filters w) wns of Some wn \<Rightarrow> Inl (WarningRaised wn) | None \<Rightarrow> Inr ()),
      w\<lparr>warn_log := warn_log w @ dispositions ev (filters w) wns\<rparr>)"
proof (induction wns arbitrary: w)
  case Nil
  show ?case by simp
next
  case (Cons wn wns)
  show ?case
    by (simp add: bind_io_def warn_def Let_def Cons.IH)
qed

lemma call_eq:
  "call ev f x w =
     (outcome ev (filters w) f x, w\<lparr>warn_log := warn_log w @ dispositions ev (filters w) (fst (f x))\<rparr>)"
  by (simp add: call_def bind_io_def emit_eq outcome_def split: option.splits)

lemma raised_ignore_all: "raised ev ((ActIgnore, None, Warning, None, 0) # fs) wns = None"
  by (induction wns) (simp_all add: pattern_ok_def)

lemma dispositions_ignore_all:
  "dispositions ev ((ActIgnore, None, Warning, None, 0) # fs) wns = map (\<lambda>wn. (wn, ActIgnore)) wns"
  by (induction wns) (simp_all add: pattern_ok_def)

lemma layout_block_eq:
  "layout_block ev p doc w =
     (map_sum id (\<lambda>regions. annotate ''blocks'' regions doc) (snd (predict (layout_pred p) doc)),
      w\<lparr>warn_log := warn_log w @ map (\<lambda>wn. (wn, ActIgnore)) (fst (predict (layout_pred p) doc))\<rparr>)"
  by (cases "snd (predict (layout_pred p) doc)")
     (simp_all add: layout_block_def simplefilter_def Let_def bind_io_def call_eq return_io_def
        outcome_def raised_ignore_all dispositions_ignore_all)

lemma run_stages_append:
  "run_stages ev p (xs @ ys) = (\<lambda>s. bind_io (run_stages ev p xs s) (run_stages ev p ys))"
proof (induction xs)
  case Nil
  show ?case by (simp add: bind_io_return_left)
next
  case (Cons st xs)
  show ?case
    by (rule ext) (simp add: Cons.IH bind_io_assoc)
qed

lemma run_stages_Nil: "run_stages ev p [] = return_io"
  by (rule ext) simp

lemma run_stages_single: "run_stages ev p [st] = run_stage ev p st"
  by (rule ext) (simp add: run_stages_Nil bind_io_return_right)

lemma run_staged:
  "run ev p input_path = bind_io (run_upto ev p 6 input_path) (\<lambda>s. return_io (snd s))"
  by (simp add: run_def run_upto_def run_parse_def all_stages_def Let_def
        bind_io_assoc bind_io_return_left)

lemma run_upto_Suc:
  assumes "n < 6"
  shows "run_upto ev p (Suc n) input_path =
         bind_io (run_upto ev p n input_path) (run_stage ev p (all_stages ! n))"
proof -
  have "n < length all_stages" using assms by (simp add: all_stages_def)
  then have "take (Suc n) all_stages = take n all_stages @ [all_stages ! n]"
    by (rule take_Suc_conv_app_nth)
  then show ?thesis
    by (simp add: run_upto_def run_stages_append run_stages_single bind_io_assoc)
qed

subsection \<open>What a stage does to the state and to the document\<close>

lemma run_stage_world:
  "\<exists>new. snd (run_stage ev p st s w) = w\<lparr>warn_log := warn_log w @ new\<rparr>"
proof (cases s)
  case (Pair src_path doc)
  have keep: "\<And>l. \<exists>new. w\<lparr>warn_log := warn_log w @ l\<rparr> = w\<lparr>warn_log := warn_log w @ new\<rparr>"
    by blast
  show ?thesis
    unfolding Pair
    by (cases st)
       (simp_all add: bind_io_def call_eq layout_block_eq return_io_def keep
          split: sum.splits)
qed

lemma run_stage_result:
  assumes "run_stage ev p st (src_path, doc) w = (Inr (src', doc'), w')"
  shows "src' = src_path \<and> content doc' = content doc \<and>
         (\<exists>pl. layers doc' = layers doc @ [(layer_name st, pl)])"
  using assms
  by (cases st)
     (auto simp: bind_io_def call_eq layout_block_eq return_io_def annotate_def
        annotate_images_def map_sum_def split: sum.splits)

lemma run_stages_world:
  "\<exists>new. snd (run_stages ev p sts s w) = w\<lparr>warn_log := warn_log w @ new\<rparr>"
proof (induction sts arbitrary: s w)
  case Nil
  show ?case by (rule exI [of _ "[]"]) (simp add: return_io_def)
next
  case (Cons st sts)
  obtain r w1 where rw: "run_stage ev p st s w = (r, w1)"
    by (cases "run_stage ev p st s w")
  obtain l1 where l1: "w1 = w\<lparr>warn_log := warn_log w @ l1\<rparr>"
    using run_stage_world [of ev p st s w] rw by auto
  show ?case
  proof (cases r)
    case (Inl e)
    then have "run_stages ev p (st # sts) s w = (Inl e, w1)"
      using rw by (simp add: bind_io_Inl)
    then show ?thesis using l1 by auto
  next
    case (Inr s1)
    then have eq: "run_stages ev p (st # sts) s w = run_stages ev p sts s1 w1"
      using rw by (simp add: bind_io_Inr)
    obtain l2 where "snd (run_stages ev p sts s1 w1) = w1\<lparr>warn_log := warn_log w1 @ l2\<rparr>"
      using Cons.IH [of s1 w1] by auto
    then have "snd (run_stages ev p (st # sts) s w) = w\<lparr>warn_log := warn_log w @ (l1 @ l2)\<rparr>"
      using eq l1 by simp
    then show ?thesis by (rule exI)
  qed
qed

lemma run_stages_result:
  assumes "run_stages ev p sts (src_path, doc) w = (Inr (src', doc'), w')"
  shows "src' = src_path \<and> content doc' = content doc \<and>
         (\<exists>new. layers doc' = layers doc @ new \<and> map fst new = map layer_name sts)"
  using assms
proof (induction sts arbitrary: doc w)
  case Nil
  then show ?case by (simp add: return_io_def)
next
  case (Cons st sts)
  from Cons.prems obtain s1 w1 where
    st1: "run_stage ev p st (src_path, doc) w = (Inr s1, w1)" and
    rest: "run_stages ev p sts s1 w1 = (Inr (src', doc'), w')"
    by (auto simp: bind_io_def split: prod.splits sum.splits)
  obtain src1 doc1 where s1: "s1 = (src1, doc1)" by (cases s1)
  from run_stage_result [OF st1 [unfolded s1]] obtain pl where
    a: "src1 = src_path" "content doc1 = content doc"
       "layers doc1 = layers doc @ [(layer_name st, pl)]"
    by blast
  from Cons.IH [OF rest [unfolded s1 a(1)]] obtain new where
    b: "src' = src_path" "content doc' = content doc1"
       "layers doc' = layers doc1 @ new" "map fst new = map layer_name sts"
    by blast
  have "layers doc' = layers doc @ ((layer_name st, pl) # new) \<and>
        map fst ((layer_name st, pl) # new) = map layer_name (st # sts)"
    using a b by simp
  then have "\<exists>new. layers doc' = layers doc @ new \<and> map fst new = map layer_name (st # sts)"
    by (rule exI)
  then show ?case using a b by simp
qed

lemma run_parse_world:
  "\<exists>new. snd (run_parse ev p input_path w) = w\<lparr>warn_log := warn_log w @ new\<rparr>"
proof -
  have keep: "\<And>l. \<exists>new. w\<lparr>warn_log := warn_log w @ l\<rparr> = w\<lparr>warn_log := warn_log w @ new\<rparr>"
    by blast
  have keep2: "\<And>l l'. \<exists>new. w\<lparr>warn_log := warn_log w @ l @ l'\<rparr> = w\<lparr>warn_log := warn_log w @ new\<rparr>"
    by blast
  show ?thesis
    by (simp add: run_parse_def Let_def bind_io_def call_eq return_io_def keep keep2
          split: sum.splits)
qed

lemma run_upto_world:
  "\<exists>new. snd (run_upto ev p n input_path w) = w\<lparr>warn_log := warn_log w @ new\<rparr>"
proof -
  obtain r w0 where a: "run_parse ev p input_path w = (r, w0)"
    by (cases "run_parse ev p input_path w")
  obtain l0 where l0: "w0 = w\<lparr>warn_log := warn_log w @ l0\<rparr>"
    using run_parse_world [of ev p input_path w] a by auto
  show ?thesis
  proof (cases r)
    case (Inl e)
    then have "run_upto ev p n input_path w = (Inl e, w0)"
      using a by (simp add: run_upto_def bind_io_Inl)
    then show ?thesis using l0 by auto
  next
    case (Inr s0)
    then have eq: "run_upto ev p n input_path w = run_stages ev p (take n all_stages) s0 w0"
      using a by (simp add: run_upto_def bind_io_Inr)
    obtain l1 where "snd (run_stages ev p (take n all_stages) s0 w0) =
        w0\<lparr>warn_log := warn_log w0 @ l1\<rparr>"
      using run_stages_world by blast
    then have "snd (run_upto ev p n input_path w) = w\<lparr>warn_log := warn_log w @ (l0 @ l1)\<rparr>"
      using eq l0 by simp
    then show ?thesis by (rule exI)
  qed
qed

lemma run_world:
  "\<exists>new. snd (run ev p input_path w) = w\<lparr>warn_log := warn_log w @ new\<rparr>"
proof -
  have "snd (run ev p input_path w) = snd (run_upto ev p 6 input_path w)"
    by (simp add: run_staged bind_io_def return_io_def split: prod.splits sum.splits)
  then show ?thesis using run_upto_world [of ev p 6 input_path w] by simp
qed

lemma run_stage_log:
  assumes "st \<noteq> St_blocks"
  shows "snd (run_stage ev p st s w) =
         w\<lparr>warn_log := warn_log w @ dispositions ev (filters w) (stage_warnings p st s)\<rparr>"
proof (cases s)
  case (Pair src_path doc)
  show ?thesis
    unfolding Pair using assms
    by (cases st) (simp_all add: bind_io_def call_eq return_io_def split: sum.splits)
qed

subsection \<open>Prefixes of a run\<close>

lemma run_upto_split:
  assumes "m \<le> n"
  shows "run_upto ev p n input_path =
         bind_io (run_upto ev p m input_path) (run_stages ev p (drop m (take n all_stages)))"
proof -
  have "take m (take n all_stages) = take m all_stages"
    using assms by (simp add: min_def)
  then have "take n all_stages = take m all_stages @ drop m (take n all_stages)"
    by (metis append_take_drop_id)
  then have "run_stages ev p (take n all_stages) =
      (\<lambda>s. bind_io (run_stages ev p (take m all_stages) s)
              (run_stages ev p (drop m (take n all_stages))))"
    by (metis run_stages_append)
  then show ?thesis
    by (simp add: run_upto_def bind_io_assoc)
qed



lemma run_returns_upto:
  assumes "run_upto ev p n input_path w = (Inr (src_path, doc), w')" and "6 \<le> n"
  shows "run ev p input_path w = (Inr doc, w')"
proof -
  have "take n all_stages = take 6 all_stages" using assms(2) by (simp add: all_stages_def)
  then have "run_upto ev p 6 input_path w = (Inr (src_path, doc), w')"
    using assms(1) by (simp add: run_upto_def)
  then show ?thesis by (simp add: run_staged bind_io_Inr return_io_def)
qed

lemma run_upto_parse:
  assumes "run_upto ev p n input_path w = (Inr (src_path, doc), w')"
  shows "\<exists>doc0 w0. run_parse ev p input_path w = (Inr (src_path, doc0), w0) \<and>
           run_stages ev p (take n all_stages) (src_path, doc0) w0 = (Inr (src_path, doc), w')"
proof -
  from assms obtain s0 w0 where
    a: "run_parse ev p input_path w = (Inr s0, w0)" and
    b: "run_stages ev p (take n all_stages) s0 w0 = (Inr (src_path, doc), w')"
    by (auto simp: run_upto_def bind_io_def split: prod.splits sum.splits)
  obtain src0 doc0 where s0: "s0 = (src0, doc0)" by (cases s0)
  have "src_path = src0" using run_stages_result [OF b [unfolded s0]] by simp
  then show ?thesis using a b s0 by auto
qed

subsection \<open>Construction\<close>

lemma bind_exn_Inr: "bind_exn r f = Inr y \<longleftrightarrow> (\<exists>x. r = Inr x \<and> f x = Inr y)"
  by (cases r) (simp_all add: bind_exn_def)

lemma Pipeline_init_Inr:
  "Pipeline_init ev c = Inr p \<longleftrightarrow>
     init_now ev (parser_cfg c) PDFPlumberParser = Inr (parser p) \<and>
     init_now ev (rasterizer_cfg c) PDF2ImageRasterizer = Inr (rasterizer p) \<and>
     init_now ev (layout_cfg c) LayoutParserPredictor = Inr (layout_pred p) \<and>
     init_now ev (words_cfg c) ExtendedDictionaryWordPredictor = Inr (words_pred p) \<and>
     init_now ev (sents_cfg c) PysbdSentenceBoundaryPredictor = Inr (sents_pred p) \<and>
     init_now ev (blocks_type_cfg c) TypedBlockPredictor = Inr (blocks_type_pred p) \<and>
     init_now ev (sents_type_cfg c) TypedSentencesPredictor = Inr (sents_type_pred p)"
  by (cases p) (auto simp: Pipeline_init_def bind_exn_Inr)


subsection \<open>The concrete pipeline, evaluated\<close>

lemmas demo_defs =
  demo_env_def demo_pipeline_def demo_component_def demo_world_def demo_doc_def demo_layers_def
  noisy_pipeline_def failing_pipeline_def other_warning_def words_warning_def

lemmas eval_defs =
  run_upto_def run_parse_def all_stages_def bind_io_def call_eq layout_block_eq return_io_def
  outcome_def annotate_def annotate_images_def Let_def pattern_ok_def

lemma demo_upto_2:
  "run_upto demo_env demo_pipeline 2 ''paper.pdf'' demo_world =
     (Inr (''paper.pdf'', demo_doc 2), demo_world)"
  by (simp add: demo_defs eval_defs)

lemma demo_upto_6:
  "run_upto demo_env demo_pipeline 6 ''paper.pdf'' demo_world =
     (Inr (''paper.pdf'', demo_doc 6), demo_world)"
  by (simp add: demo_defs eval_defs)

lemma noisy_upto_2:
  "run_upto demo_env noisy_pipeline 2 ''paper.pdf'' demo_world =
     (Inr (''paper.pdf'', demo_doc 2), demo_world\<lparr>warn_log := [(other_warning, ActIgnore)]\<rparr>)"
  by (simp add: demo_defs eval_defs)


lemma demo_init: "Pipeline_init demo_env demo_config = Inr demo_pipeline"
  by (simp add: Pipeline_init_def bind_exn_def demo_config_def demo_env_def demo_pipeline_def
        MISSING_def)

section \<open>The claims\<close>

text \<open>
  C1: when the cache resolves the input path, the parser parses the resolved path, the
  rasterizer (called with 72 dpi) and the five predictors succeed, each on the document
  as annotated by the stages before it, \<^verbatim>\<open>run\<close> returns the parsed document with the six
  layers images, blocks, words, sents, typed_blocks and typed_sents attached, holding the
  values the collaborators returned. A collaborator outside the \<^verbatim>\<open>with\<close> block succeeds
  when none of its warnings is raised as an error by the caller's filters; inside the
  block no warning can be raised.
\<close>

theorem run_returns_fully_annotated:
  assumes "outcome ev (filters w) (cached_path ev) input_path = Inr cp"
    and "outcome ev (filters w) (parse (parser p)) (path_str ev cp) = Inr doc0"
    and "outcome ev (filters w) (rasterize (rasterizer p) (path_str ev cp)) 72 = Inr images"
    and "snd (predict (layout_pred p) (annotate_images images doc0)) = Inr blocks"
    and "doc2 = annotate ''blocks'' blocks (annotate_images images doc0)"
    and "outcome ev (filters w) (predict (words_pred p)) doc2 = Inr words"
    and "doc3 = annotate ''words'' words doc2"
    and "outcome ev (filters w) (predict (sents_pred p)) doc3 = Inr sents"
    and "doc4 = annotate ''sents'' sents doc3"
    and "outcome ev (filters w) (predict (blocks_type_pred p)) doc4 = Inr typed_blocks"
    and "doc5 = annotate ''typed_blocks'' typed_blocks doc4"
    and "outcome ev (filters w) (predict (sents_type_pred p)) doc5 = Inr typed_sents"
  shows "fst (run ev p input_path w) =
         Inr (doc0\<lparr>layers := layers doc0 @
               [(''images'', Images images), (''blocks'', Annotations blocks),
                (''words'', Annotations words), (''sents'', Annotations sents),
                (''typed_blocks'', Annotations typed_blocks),
                (''typed_sents'', Annotations typed_sents)]\<rparr>)"
proof -
  have "fst (run ev p input_path w) = Inr (annotate ''typed_sents'' typed_sents doc5)"
    using assms(1-4,6,8,10,12)
    unfolding assms(5,7,9,11)
    by (simp add: run_def Let_def bind_io_def call_eq layout_block_eq return_io_def)
  then show ?thesis
    unfolding assms(5,7,9,11) by (simp add: annotate_def annotate_images_def)
qed

text \<open>
  C1 at the concrete pipeline: every hypothesis holds there, and the run returns the
  document with all six layers.
\<close>

theorem run_returns_fully_annotated_witness:
  "fst (run demo_env demo_pipeline ''paper.pdf'' demo_world) = Inr (demo_doc 6)"
proof -
  let ?fs = "filters demo_world"
  let ?d0 = "\<lparr>content = ''paper.pdf'', layers = [(''tokens'', Annotations [''P''])]\<rparr>"
  have h1: "outcome demo_env ?fs (cached_path demo_env) ''paper.pdf'' = Inr ''paper.pdf''"
    by (simp add: demo_defs outcome_def)
  have h2: "outcome demo_env ?fs (parse (parser demo_pipeline)) (path_str demo_env ''paper.pdf'') =
            Inr ?d0"
    by (simp add: demo_defs outcome_def)
  have h3: "outcome demo_env ?fs (rasterize (rasterizer demo_pipeline) (path_str demo_env ''paper.pdf''))
              72 = Inr [''paper.pdf#1'']"
    by (simp add: demo_defs outcome_def)
  have h4: "snd (predict (layout_pred demo_pipeline) (annotate_images [''paper.pdf#1''] ?d0)) =
            Inr [''L'']"
    by (simp add: demo_defs)
  have h6: "outcome demo_env ?fs (predict (words_pred demo_pipeline)) d = Inr [''W'']" for d
    by (simp add: demo_defs outcome_def)
  have h8: "outcome demo_env ?fs (predict (sents_pred demo_pipeline)) d = Inr [''S'']" for d
    by (simp add: demo_defs outcome_def)
  have h10: "outcome demo_env ?fs (predict (blocks_type_pred demo_pipeline)) d = Inr [''TB'']" for d
    by (simp add: demo_defs outcome_def)
  have h12: "outcome demo_env ?fs (predict (sents_type_pred demo_pipeline)) d = Inr [''TS'']" for d
    by (simp add: demo_defs outcome_def)
  show ?thesis
    using run_returns_fully_annotated [OF h1 h2 h3 h4 refl h6 refl h8 refl h10 refl h12]
    by (simp add: demo_doc_def demo_layers_def)
qed

text \<open>
  C2: at every point of a run, after the first \<open>n\<close> stages, the layers attached on top of
  the parsed document are exactly the first \<open>n\<close> of images, blocks, words, sents,
  typed_blocks, typed_sents, in this order; the next stage runs on that document, so its
  collaborator sees every layer before it; and after the sixth stage the document is
  the one \<^verbatim>\<open>run\<close> returns. The order does not depend on the pipeline, the input or the
  state.
\<close>

theorem layers_attached_in_fixed_order:
  assumes "run_upto ev p n input_path w = (Inr (src_path, doc), w')"
  shows "(\<exists>doc0 w0. run_parse ev p input_path w = (Inr (src_path, doc0), w0) \<and>
            map fst (layers doc) = map fst (layers doc0) @
              take n [''images'', ''blocks'', ''words'', ''sents'', ''typed_blocks'', ''typed_sents'']) \<and>
         (n < 6 \<longrightarrow> run_upto ev p (Suc n) input_path w =
                      run_stage ev p (all_stages ! n) (src_path, doc) w') \<and>
         (6 \<le> n \<longrightarrow> run ev p input_path w = (Inr doc, w'))"
proof (intro conjI impI)
  from run_upto_parse [OF assms] obtain doc0 w0 where
    a: "run_parse ev p input_path w = (Inr (src_path, doc0), w0)" and
    b: "run_stages ev p (take n all_stages) (src_path, doc0) w0 = (Inr (src_path, doc), w')"
    by blast
  from run_stages_result [OF b] obtain new where
    c: "layers doc = layers doc0 @ new" "map fst new = map layer_name (take n all_stages)"
    by blast
  have "map layer_name (take n all_stages) =
        take n [''images'', ''blocks'', ''words'', ''sents'', ''typed_blocks'', ''typed_sents'']"
    by (simp add: take_map [symmetric] all_stages_def)
  then have "map fst (layers doc) = map fst (layers doc0) @
      take n [''images'', ''blocks'', ''words'', ''sents'', ''typed_blocks'', ''typed_sents'']"
    using c by simp
  then show "\<exists>doc0 w0. run_parse ev p input_path w = (Inr (src_path, doc0), w0) \<and>
            map fst (layers doc) = map fst (layers doc0) @
              take n [''images'', ''blocks'', ''words'', ''sents'', ''typed_blocks'', ''typed_sents'']"
    using a by blast
next
  assume "n < 6"
  then show "run_upto ev p (Suc n) input_path w =
             run_stage ev p (all_stages ! n) (src_path, doc) w'"
    using assms by (simp add: run_upto_Suc bind_io_Inr)
next
  assume "6 \<le> n"
  with assms show "run ev p input_path w = (Inr doc, w')"
    by (rule run_returns_upto)
qed

text \<open>
  C2 at the concrete pipeline: the returned document carries the parser's layer and then
  the six layers in the fixed order.
\<close>

theorem layers_attached_in_fixed_order_witness:
  "run_upto demo_env demo_pipeline 6 ''paper.pdf'' demo_world =
     (Inr (''paper.pdf'', demo_doc 6), demo_world) \<and>
   run demo_env demo_pipeline ''paper.pdf'' demo_world = (Inr (demo_doc 6), demo_world) \<and>
   map fst (layers (demo_doc 6)) =
     [''tokens'', ''images'', ''blocks'', ''words'', ''sents'', ''typed_blocks'', ''typed_sents'']"
  using layers_attached_in_fixed_order [OF demo_upto_6] demo_upto_6
  by (simp add: demo_doc_def demo_layers_def)



text \<open>
  C4: when the module has loaded (its defaults are computed) and construction from a
  configuration succeeds, each of the seven components is what the factory returns for
  that stage's step configuration; a stage that was not given when the configuration was
  built has the default target of the source, the layout stage with
  \<^verbatim>\<open>config_path = lp://efficientdet/PubLayNet\<close> and the word stage with the dictionary
  path that \<^verbatim>\<open>cached_path\<close> returned for the word list's URL.
\<close>

theorem construction_uses_config_or_defaults:
  assumes "PipelineConfig_defaults ev = Inr dflt"
    and "Pipeline_init ev (PipelineConfig dflt a_parser a_rasterizer a_layout a_sents a_words
           a_blocks_type a_sents_type) = Inr p"
  shows "init_now ev (case a_parser of Some c \<Rightarrow> c
            | None \<Rightarrow> \<lparr>target = to_string ev PDFPlumberParser, params = []\<rparr>)
           PDFPlumberParser = Inr (parser p) \<and>
         init_now ev (case a_rasterizer of Some c \<Rightarrow> c
            | None \<Rightarrow> \<lparr>target = to_string ev PDF2ImageRasterizer, params = []\<rparr>)
           PDF2ImageRasterizer = Inr (rasterizer p) \<and>
         init_now ev (case a_layout of Some c \<Rightarrow> c
            | None \<Rightarrow> \<lparr>target = to_string ev LayoutParserPredictor_from_pretrained,
                       params = [(''config_path'', ''lp://efficientdet/PubLayNet'')]\<rparr>)
           LayoutParserPredictor = Inr (layout_pred p) \<and>
         (\<exists>local_path.
            snd (cached_path ev ''https://github.com/dwyl/english-words/raw/master/words.txt'') =
              Inr local_path \<and>
            init_now ev (case a_words of Some c \<Rightarrow> c
               | None \<Rightarrow> \<lparr>target = to_string ev ExtendedDictionaryWordPredictor,
                          params = [(''dictionary_file_path'', local_path)]\<rparr>)
              ExtendedDictionaryWordPredictor = Inr (words_pred p)) \<and>
         init_now ev (case a_sents of Some c \<Rightarrow> c
            | None \<Rightarrow> \<lparr>target = to_string ev PysbdSentenceBoundaryPredictor, params = []\<rparr>)
           PysbdSentenceBoundaryPredictor = Inr (sents_pred p) \<and>
         init_now ev (case a_blocks_type of Some c \<Rightarrow> c
            | None \<Rightarrow> \<lparr>target = to_string ev TypedBlockPredictor, params = []\<rparr>)
           TypedBlockPredictor = Inr (blocks_type_pred p) \<and>
         init_now ev (case a_sents_type of Some c \<Rightarrow> c
            | None \<Rightarrow> \<lparr>target = to_string ev TypedSentencesPredictor, params = []\<rparr>)
           TypedSentencesPredictor = Inr (sents_type_pred p)"
proof -
  from assms(1) obtain local_path where
    lp: "snd (cached_path ev words_url) = Inr local_path" and
    dflt: "dflt =
      \<lparr>parser_cfg = PipelineStepConfig (Some (to_string ev PDFPlumberParser)) [],
       rasterizer_cfg = PipelineStepConfig (Some (to_string ev PDF2ImageRasterizer)) [],
       layout_cfg = PipelineStepConfig (Some (to_string ev LayoutParserPredictor_from_pretrained))
          [(''config_path'', ''lp://efficientdet/PubLayNet'')],
       sents_cfg = PipelineStepConfig (Some (to_string ev PysbdSentenceBoundaryPredictor)) [],
       words_cfg = PipelineStepConfig (Some (to_string ev ExtendedDictionaryWordPredictor))
          [(''dictionary_file_path'', local_path)],
       blocks_type_cfg = PipelineStepConfig (Some (to_string ev TypedBlockPredictor)) [],
       sents_type_cfg = PipelineStepConfig (Some (to_string ev TypedSentencesPredictor)) []\<rparr>"
    by (auto simp: PipelineConfig_defaults_def split: sum.splits)
  have fo: "\<And>d (a :: step_config option). field_or d a = (case a of Some c \<Rightarrow> c | None \<Rightarrow> d)"
    by (simp add: field_or_def split: option.splits)
  from assms(2) have parts:
    "init_now ev (field_or (parser_cfg dflt) a_parser) PDFPlumberParser = Inr (parser p)"
    "init_now ev (field_or (rasterizer_cfg dflt) a_rasterizer) PDF2ImageRasterizer = Inr (rasterizer p)"
    "init_now ev (field_or (layout_cfg dflt) a_layout) LayoutParserPredictor = Inr (layout_pred p)"
    "init_now ev (field_or (words_cfg dflt) a_words) ExtendedDictionaryWordPredictor = Inr (words_pred p)"
    "init_now ev (field_or (sents_cfg dflt) a_sents) PysbdSentenceBoundaryPredictor = Inr (sents_pred p)"
    "init_now ev (field_or (blocks_type_cfg dflt) a_blocks_type) TypedBlockPredictor = Inr (blocks_type_pred p)"
    "init_now ev (field_or (sents_type_cfg dflt) a_sents_type) TypedSentencesPredictor = Inr (sents_type_pred p)"
    by (simp_all add: Pipeline_init_Inr PipelineConfig_def)
  have w: "\<exists>local_path.
            snd (cached_path ev ''https://github.com/dwyl/english-words/raw/master/words.txt'') =
              Inr local_path \<and>
            init_now ev (case a_words of Some c \<Rightarrow> c
               | None \<Rightarrow> \<lparr>target = to_string ev ExtendedDictionaryWordPredictor,
                          params = [(''dictionary_file_path'', local_path)]\<rparr>)
              ExtendedDictionaryWordPredictor = Inr (words_pred p)"
    using lp parts(4) by (simp add: dflt fo PipelineStepConfig_def words_url_def)
  show ?thesis
    using parts(1,2,3,5,6,7) w by (simp add: dflt fo PipelineStepConfig_def)
qed

text \<open>
  C4 at the concrete factory, with the layout stage given and the other six left to
  their defaults.
\<close>

theorem construction_uses_config_or_defaults_witness:
  "\<exists>dflt p. PipelineConfig_defaults demo_env = Inr dflt \<and>
     Pipeline_init demo_env
       (PipelineConfig dflt None None (Some \<lparr>target = ''my.Layout'', params = []\<rparr>)
          None None None None) = Inr p \<and>
     parser p = demo_component PDFPlumberParser \<and>
     layout_pred p = demo_component ''my.Layout'' \<and>
     words_pred p = demo_component ExtendedDictionaryWordPredictor"
proof -
  obtain dflt where d: "PipelineConfig_defaults demo_env = Inr dflt"
    by (simp add: PipelineConfig_defaults_def demo_env_def)
  obtain p where i: "Pipeline_init demo_env
       (PipelineConfig dflt None None (Some \<lparr>target = ''my.Layout'', params = []\<rparr>)
          None None None None) = Inr p"
    using d
    by (auto simp: PipelineConfig_defaults_def PipelineConfig_def PipelineStepConfig_def
          field_or_def Pipeline_init_def bind_exn_def demo_env_def MISSING_def
          PDFPlumberParser_def PDF2ImageRasterizer_def PysbdSentenceBoundaryPredictor_def
          ExtendedDictionaryWordPredictor_def TypedBlockPredictor_def
          TypedSentencesPredictor_def)
  have "parser p = demo_component PDFPlumberParser \<and>
     layout_pred p = demo_component ''my.Layout'' \<and>
     words_pred p = demo_component ExtendedDictionaryWordPredictor"
    using construction_uses_config_or_defaults [OF d i]
    by (auto simp: demo_env_def MISSING_def PDFPlumberParser_def
          ExtendedDictionaryWordPredictor_def split: if_splits)
  then show ?thesis using d i by blast
qed



text \<open>
  C6: when construction succeeds for a configuration and for the same configuration with
  one stage's step configuration replaced, the two pipelines differ at most in the
  component of that stage; the other six components are equal.
\<close>

theorem override_leaves_other_stages:
  assumes "Pipeline_init ev c = Inr p"
  shows "(Pipeline_init ev (c\<lparr>parser_cfg := x\<rparr>) = Inr p' \<longrightarrow> p' = p\<lparr>parser := parser p'\<rparr>) \<and>
         (Pipeline_init ev (c\<lparr>rasterizer_cfg := x\<rparr>) = Inr p' \<longrightarrow>
            p' = p\<lparr>rasterizer := rasterizer p'\<rparr>) \<and>
         (Pipeline_init ev (c\<lparr>layout_cfg := x\<rparr>) = Inr p' \<longrightarrow>
            p' = p\<lparr>layout_pred := layout_pred p'\<rparr>) \<and>
         (Pipeline_init ev (c\<lparr>words_cfg := x\<rparr>) = Inr p' \<longrightarrow>
            p' = p\<lparr>words_pred := words_pred p'\<rparr>) \<and>
         (Pipeline_init ev (c\<lparr>sents_cfg := x\<rparr>) = Inr p' \<longrightarrow>
            p' = p\<lparr>sents_pred := sents_pred p'\<rparr>) \<and>
         (Pipeline_init ev (c\<lparr>blocks_type_cfg := x\<rparr>) = Inr p' \<longrightarrow>
            p' = p\<lparr>blocks_type_pred := blocks_type_pred p'\<rparr>) \<and>
         (Pipeline_init ev (c\<lparr>sents_type_cfg := x\<rparr>) = Inr p' \<longrightarrow>
            p' = p\<lparr>sents_type_pred := sents_type_pred p'\<rparr>)"
  using assms by (cases p, cases p') (simp add: Pipeline_init_Inr)

text \<open>
  C6 at the concrete factory: replacing the layout stage's configuration changes the
  layout component only.
\<close>

theorem override_leaves_other_stages_witness:
  "Pipeline_init demo_env demo_config = Inr demo_pipeline \<and>
   Pipeline_init demo_env (demo_config\<lparr>layout_cfg := \<lparr>target = ''L2'', params = []\<rparr>\<rparr>) =
     Inr (demo_pipeline\<lparr>layout_pred := demo_component ''L2''\<rparr>)"
proof -
  have h: "Pipeline_init demo_env (demo_config\<lparr>layout_cfg := \<lparr>target = ''L2'', params = []\<rparr>\<rparr>) =
     Inr (demo_pipeline\<lparr>layout_pred := demo_component ''L2''\<rparr>)"
    by (simp add: Pipeline_init_def bind_exn_def demo_config_def demo_env_def demo_pipeline_def
          MISSING_def)
  show ?thesis
    using override_leaves_other_stages [OF demo_init,
        where x = "\<lparr>target = ''L2'', params = []\<rparr>"
          and p' = "demo_pipeline\<lparr>layout_pred := demo_component ''L2''\<rparr>"]
      demo_init h
    by simp
qed

text \<open>
  C7: the layers of the document after \<open>m\<close> stages are an initial segment of its layers
  after \<open>n \<ge> m\<close> stages, names and values alike, and the content is unchanged: a stage
  only appends, and a layer once attached is neither removed nor replaced up to the
  document that \<^verbatim>\<open>run\<close> returns.
\<close>

theorem layers_only_grow:
  assumes "m \<le> n" and "run_upto ev p n input_path w = (Inr (src_path, doc_n), w_n)"
  shows "(\<exists>doc_m w_m. run_upto ev p m input_path w = (Inr (src_path, doc_m), w_m) \<and>
            prefix (layers doc_m) (layers doc_n) \<and> content doc_m = content doc_n) \<and>
         (6 \<le> n \<longrightarrow> run ev p input_path w = (Inr doc_n, w_n))"
proof (intro conjI impI)
  let ?rest = "drop m (take n all_stages)"
  from assms(2) obtain s_m w_m where
    a: "run_upto ev p m input_path w = (Inr s_m, w_m)" and
    b: "run_stages ev p ?rest s_m w_m = (Inr (src_path, doc_n), w_n)"
    by (auto simp: run_upto_split [OF assms(1)] bind_io_def split: prod.splits sum.splits)
  obtain src_m doc_m where s_m: "s_m = (src_m, doc_m)" by (cases s_m)
  from run_stages_result [OF b [unfolded s_m]] obtain new where
    c: "src_path = src_m" "content doc_n = content doc_m" "layers doc_n = layers doc_m @ new"
    by blast
  have "prefix (layers doc_m) (layers doc_n)" using c(3) by simp
  then show "\<exists>doc_m w_m. run_upto ev p m input_path w = (Inr (src_path, doc_m), w_m) \<and>
            prefix (layers doc_m) (layers doc_n) \<and> content doc_m = content doc_n"
    using a s_m c by auto
next
  assume "6 \<le> n"
  with assms(2) show "run ev p input_path w = (Inr doc_n, w_n)"
    by (rule run_returns_upto)
qed

text \<open>
  C7 at the concrete pipeline: the layers present after two stages are an initial segment
  of the layers of the returned document.
\<close>

theorem layers_only_grow_witness:
  "run_upto demo_env demo_pipeline 6 ''paper.pdf'' demo_world =
     (Inr (''paper.pdf'', demo_doc 6), demo_world) \<and>
   run_upto demo_env demo_pipeline 2 ''paper.pdf'' demo_world =
     (Inr (''paper.pdf'', demo_doc 2), demo_world) \<and>
   prefix (layers (demo_doc 2)) (layers (demo_doc 6)) \<and>
   run demo_env demo_pipeline ''paper.pdf'' demo_world = (Inr (demo_doc 6), demo_world)"
proof -
  have le: "(2::nat) \<le> 6" by simp
  show ?thesis
    using layers_only_grow [OF le demo_upto_6] demo_upto_6 demo_upto_2
    by (simp add: demo_doc_def demo_layers_def)
qed

text \<open>
  C8: calling a pipeline object is calling its \<^verbatim>\<open>run\<close> method: for every input path and
  every interpreter state both give the same result and leave the same state.
\<close>

theorem Pipeline_call_is_run: "Pipeline_call ev p input_path w = run ev p input_path w"
  by (simp add: Pipeline_call_def)


text \<open>
  C10: when the \<^verbatim>\<open>with\<close> block is left, normally or by an exception, the filter list is
  what it was on entry; when \<^verbatim>\<open>run\<close> has returned or raised, and at every point between
  two stages, the filter list is the caller's; and every stage other than the layout stage
  logs each warning of its collaborator with the action that the caller's filter list
  gives it, so the layout stage's filter reaches no other stage.
\<close>

theorem later_stages_use_callers_filters:
  "filters (snd (layout_block ev p doc w)) = filters w \<and>
   filters (snd (run ev p input_path w)) = filters w \<and>
   (run_upto ev p n input_path w = (Inr s, wa) \<and> st \<noteq> St_blocks \<and>
      run_stage ev p st s wa = (r, wb) \<longrightarrow>
      filters wa = filters w \<and>
      wb = wa\<lparr>warn_log := warn_log wa @ dispositions ev (filters w) (stage_warnings p st s)\<rparr>)"
proof (intro conjI impI; (elim conjE)?)
  show "filters (snd (layout_block ev p doc w)) = filters w"
    by (simp add: layout_block_eq)
next
  obtain l where "snd (run ev p input_path w) = w\<lparr>warn_log := warn_log w @ l\<rparr>"
    using run_world by blast
  then show "filters (snd (run ev p input_path w)) = filters w" by simp
next
  assume upto: "run_upto ev p n input_path w = (Inr s, wa)"
  obtain l where "snd (run_upto ev p n input_path w) = w\<lparr>warn_log := warn_log w @ l\<rparr>"
    using run_upto_world by blast
  then show "filters wa = filters w" using upto by simp
next
  assume upto: "run_upto ev p n input_path w = (Inr s, wa)" and ne: "st \<noteq> St_blocks"
    and stage: "run_stage ev p st s wa = (r, wb)"
  obtain l where "snd (run_upto ev p n input_path w) = w\<lparr>warn_log := warn_log w @ l\<rparr>"
    using run_upto_world by blast
  then have a: "filters wa = filters w" using upto by simp
  have "wb = wa\<lparr>warn_log := warn_log wa @ dispositions ev (filters wa) (stage_warnings p st s)\<rparr>"
    using run_stage_log [OF ne, of ev p s wa] stage by simp
  then show "wb = wa\<lparr>warn_log := warn_log wa @ dispositions ev (filters w) (stage_warnings p st s)\<rparr>"
    using a by simp
qed

text \<open>
  C10 at a pipeline whose layout and word predictors each emit a warning: the layout
  warning is ignored, the word predictor's warning gets the caller's action, and the
  filter list after the run is the caller's.
\<close>

theorem later_stages_use_callers_filters_witness:
  "run_upto demo_env noisy_pipeline 2 ''paper.pdf'' demo_world =
     (Inr (''paper.pdf'', demo_doc 2), demo_world\<lparr>warn_log := [(other_warning, ActIgnore)]\<rparr>) \<and>
   run_stage demo_env noisy_pipeline St_words (''paper.pdf'', demo_doc 2)
       (demo_world\<lparr>warn_log := [(other_warning, ActIgnore)]\<rparr>) =
     (Inr (''paper.pdf'', demo_doc 3),
      demo_world\<lparr>warn_log := [(other_warning, ActIgnore), (words_warning, ActAlways)]\<rparr>) \<and>
   dispositions demo_env (filters demo_world)
       (stage_warnings noisy_pipeline St_words (''paper.pdf'', demo_doc 2)) =
     [(words_warning, ActAlways)] \<and>
   filters (snd (run demo_env noisy_pipeline ''paper.pdf'' demo_world)) = filters demo_world"
proof -
  have ne: "St_words \<noteq> St_blocks" by simp
  have h: "run_stage demo_env noisy_pipeline St_words (''paper.pdf'', demo_doc 2)
       (demo_world\<lparr>warn_log := [(other_warning, ActIgnore)]\<rparr>) =
     (Inr (''paper.pdf'', demo_doc 3),
      demo_world\<lparr>warn_log := [(other_warning, ActIgnore), (words_warning, ActAlways)]\<rparr>)"
    by (simp add: demo_defs eval_defs)
  have d: "dispositions demo_env (filters demo_world)
       (stage_warnings noisy_pipeline St_words (''paper.pdf'', demo_doc 2)) =
     [(words_warning, ActAlways)]"
    by (simp add: demo_defs pattern_ok_def)
  show ?thesis
    using later_stages_use_callers_filters [where ev = demo_env and p = noisy_pipeline
        and input_path = "''paper.pdf''" and w = demo_world and n = 2
        and s = "(''paper.pdf'', demo_doc 2)" and st = St_words
        and wa = "demo_world\<lparr>warn_log := [(other_warning, ActIgnore)]\<rparr>"
        and r = "Inr (''paper.pdf'', demo_doc 3)"
        and wb = "demo_world\<lparr>warn_log := [(other_warning, ActIgnore), (words_warning, ActAlways)]\<rparr>"]
      noisy_upto_2 ne h d
    by simp
qed

end
